theory Spec2Isabelle
  imports Complex_Main "HOL-Library.AList"
begin

section \<open>Data model of \<^verbatim>\<open>main.py\<close>\<close>

text \<open>
  The service keeps two module-level dictionaries, \<^verbatim>\<open>users_db\<close> (username to user
  dictionary) and \<^verbatim>\<open>items_db\<close> (item id to item dictionary). A Python dictionary keeps
  its keys in insertion order, and \<^verbatim>\<open>list(d.values())\<close> reads them in that order, so a
  dictionary is an association list here:
  \<^item> \<^verbatim>\<open>k in d\<close> is \<open>map_of d k \<noteq> None\<close>, \<^verbatim>\<open>d.get(k)\<close> is \<open>map_of d k\<close>;
  \<^item> \<^verbatim>\<open>d[k] = v\<close> is \<open>AList.update k v d\<close>: the value is replaced in place when the key
    is there, and the pair is appended otherwise;
  \<^item> \<^verbatim>\<open>del d[k]\<close> is \<open>AList.delete k d\<close>;
  \<^item> \<^verbatim>\<open>len(d)\<close> is \<open>length d\<close> and \<^verbatim>\<open>list(d.values())\<close> is \<open>map snd d\<close>.

  A \<^verbatim>\<open>datetime\<close> is a number of seconds (an \<open>int\<close>), a \<^verbatim>\<open>timedelta\<close> a difference
  of two, and \<^verbatim>\<open>datetime.utcnow()\<close> is the argument \<open>now\<close> of every function that reads
  the clock. The password hasher (\<^verbatim>\<open>passlib\<close>) is an argument of the functions that call
  it: \<open>get_password_hash\<close> and \<open>verify_password\<close>. The secret \<^verbatim>\<open>SECRET_KEY\<close> is read from
  the environment when the module is loaded, so it is an argument as well. A price is a
  number that is stored and returned and never computed with.

  The handlers are modelled from their first line on: the validation of the request
  body, which the framework runs before it calls a handler, is not part of them, and
  every theorem holds for all inputs, valid or not. A handler that writes returns its
  result together with the state it leaves; an exception is a left result, and the
  state returned with it is the state at the \<^verbatim>\<open>raise\<close>.
\<close>

type_synonym datetime = int
type_synonym timedelta = int

definition minutes :: "int \<Rightarrow> timedelta" where
  "minutes m = 60 * m"

definition ACCESS_TOKEN_EXPIRE_MINUTES :: int where
  "ACCESS_TOKEN_EXPIRE_MINUTES = 30"

text \<open>The pydantic models. A field whose name another record already uses carries a
  prefix: \<open>u_id\<close>, \<open>u_created_at\<close> are the keys \<^verbatim>\<open>id\<close> and \<^verbatim>\<open>created_at\<close> of a user
  dictionary, \<open>i_id\<close>, \<open>i_created_at\<close> those of an item dictionary.\<close>

record UserBase =
  username :: string
  email :: string
  full_name :: "string option"

record UserCreate = UserBase +
  password :: string

text \<open>A value of \<^verbatim>\<open>users_db\<close>: \<^verbatim>\<open>user.dict()\<close> with the keys \<^verbatim>\<open>id\<close> and
  \<^verbatim>\<open>created_at\<close> added and \<^verbatim>\<open>password\<close> overwritten by the hash.\<close>

record user_data = UserCreate +
  u_id :: int
  u_created_at :: datetime

record UserLogin =
  login_username :: string
  login_password :: string

record ItemBase =
  title :: string
  description :: "string option"
  price :: real

type_synonym ItemCreate = ItemBase

text \<open>A value of \<^verbatim>\<open>items_db\<close>: \<^verbatim>\<open>item.dict()\<close> with \<^verbatim>\<open>id\<close>, \<^verbatim>\<open>owner_id\<close> and
  \<^verbatim>\<open>created_at\<close> added.\<close>

record item_data = ItemBase +
  i_id :: int
  owner_id :: int
  i_created_at :: datetime

record state =
  users_db :: "(string \<times> user_data) list"
  items_db :: "(int \<times> item_data) list"

definition initial :: state where
  "initial = \<lparr>users_db = [], items_db = []\<rparr>"

text \<open>\<^verbatim>\<open>HTTPException(status_code, detail, headers)\<close>; \<open>None\<close> when no headers are given.\<close>

datatype http_error =
  HTTPException (status_code: nat) (detail: string) (headers: "(string \<times> string) list option")

definition HTTP_400_BAD_REQUEST :: nat where "HTTP_400_BAD_REQUEST = 400"
definition HTTP_401_UNAUTHORIZED :: nat where "HTTP_401_UNAUTHORIZED = 401"
definition HTTP_403_FORBIDDEN :: nat where "HTTP_403_FORBIDDEN = 403"
definition HTTP_404_NOT_FOUND :: nat where "HTTP_404_NOT_FOUND = 404"

section \<open>Registration\<close>

text \<open>\<^verbatim>\<open>register\<close> (lines 146-162). The exception is raised before anything is written,
  so the state it leaves is the state it found.\<close>

definition register ::
  "(string \<Rightarrow> string) \<Rightarrow> UserCreate \<Rightarrow> datetime \<Rightarrow> state \<Rightarrow> (http_error + user_data) \<times> state" where
  "register get_password_hash user now s =
     (if map_of (users_db s) (username user) \<noteq> None then
        (Inl (HTTPException HTTP_400_BAD_REQUEST ''Username already registered'' None), s)
      else
        let hashed_password = get_password_hash (password user);
            user_data = \<lparr>username = username user, email = email user,
                         full_name = full_name user, password = hashed_password,
                         u_id = int (length (users_db s)) + 1, u_created_at = now\<rparr>
        in (Inr user_data, s\<lparr>users_db := AList.update (username user) user_data (users_db s)\<rparr>))"

section \<open>Tokens\<close>

text \<open>The payload of a token is the dictionary \<^verbatim>\<open>to_encode\<close>; the code reads and writes
  the keys \<^verbatim>\<open>sub\<close> and \<^verbatim>\<open>exp\<close> only. A key that is absent is \<open>None\<close>, which is what
  \<^verbatim>\<open>payload.get("sub")\<close> returns for it.\<close>

record payload =
  sub_claim :: "string option"
  exp_claim :: "datetime option"

text \<open>Modelled from the spec: the tokens of the PyJWT library, which is not among the
  sources. Following section 4.2 of the specification, a token is either a payload signed
  with a key or a string that has no token structure. Signatures are ideal: a signature
  made with one key verifies under that key and under no other.\<close>

datatype token = Signed string payload | Malformed string

datatype PyJWTError = DecodeError | InvalidSignatureError | ExpiredSignatureError

text \<open>Modelled from the spec: \<^verbatim>\<open>jwt.encode\<close> of the PyJWT library, which is not among the
  sources; it signs the payload with the key.\<close>

definition jwt_encode :: "payload \<Rightarrow> string \<Rightarrow> token" where
  "jwt_encode p key = Signed key p"

text \<open>Modelled from the spec: \<^verbatim>\<open>jwt.decode\<close> of the PyJWT library, which is not among the
  sources. Following section 4.2 of the specification, decoding fails when the structure
  is malformed, when the signature was not made with the key given, or when the payload
  carries an expiry that is not after the time of the check (the library reads the clock
  itself: \<open>now\<close>), and returns the payload otherwise. A payload need not carry an
  expiry.\<close>

fun jwt_decode :: "token \<Rightarrow> string \<Rightarrow> datetime \<Rightarrow> PyJWTError + payload" where
  "jwt_decode (Malformed raw) key now = Inl DecodeError"
| "jwt_decode (Signed k p) key now =
     (if k \<noteq> key then Inl InvalidSignatureError
      else case exp_claim p of
             None \<Rightarrow> Inr p
           | Some e \<Rightarrow> if e \<le> now then Inl ExpiredSignatureError else Inr p)"

text \<open>\<^verbatim>\<open>create_access_token\<close> (lines 94-102). The test \<^verbatim>\<open>if expires_delta:\<close> is Python's
  truth test: \<^verbatim>\<open>None\<close> is false, and so is \<^verbatim>\<open>timedelta(0)\<close>.\<close>

definition create_access_token ::
  "string \<Rightarrow> payload \<Rightarrow> timedelta option \<Rightarrow> datetime \<Rightarrow> token" where
  "create_access_token SECRET_KEY data expires_delta now =
     (let expire = (case expires_delta of
                      None \<Rightarrow> now + minutes 15
                    | Some d \<Rightarrow> if d \<noteq> 0 then now + d else now + minutes 15);
          to_encode = data\<lparr>exp_claim := Some expire\<rparr>
      in jwt_encode to_encode SECRET_KEY)"

definition credentials_exception :: http_error where
  "credentials_exception =
     HTTPException HTTP_401_UNAUTHORIZED ''Could not validate credentials''
       (Some [(''WWW-Authenticate'', ''Bearer'')])"

text \<open>The \<^verbatim>\<open>try\<close> block of \<^verbatim>\<open>get_current_user\<close> (lines 105-119): decode the token, read
  \<^verbatim>\<open>sub\<close>, raise when it is \<^verbatim>\<open>None\<close>; every \<^verbatim>\<open>PyJWTError\<close> becomes the same
  exception.\<close>

definition token_subject :: "string \<Rightarrow> token \<Rightarrow> datetime \<Rightarrow> http_error + string" where
  "token_subject SECRET_KEY credentials now =
     (case jwt_decode credentials SECRET_KEY now of
        Inl err \<Rightarrow> Inl credentials_exception
      | Inr p \<Rightarrow>
          (case sub_claim p of
             None \<Rightarrow> Inl credentials_exception
           | Some name \<Rightarrow> Inr name))"

text \<open>\<^verbatim>\<open>get_current_user\<close> (lines 104-128).\<close>

definition get_current_user ::
  "string \<Rightarrow> token \<Rightarrow> datetime \<Rightarrow> state \<Rightarrow> http_error + user_data" where
  "get_current_user SECRET_KEY credentials now s =
     (case token_subject SECRET_KEY credentials now of
        Inl e \<Rightarrow> Inl e
      | Inr name \<Rightarrow>
          (case map_of (users_db s) name of
             None \<Rightarrow> Inl (HTTPException HTTP_401_UNAUTHORIZED ''User not found''
                            (Some [(''WWW-Authenticate'', ''Bearer'')]))
           | Some user \<Rightarrow> Inr user))"

section \<open>Login and the user endpoints\<close>

record Token =
  access_token :: token
  token_type :: string

text \<open>\<^verbatim>\<open>login\<close> (lines 164-179). A stored user dictionary is never empty, so
  \<^verbatim>\<open>not user\<close> holds exactly when \<^verbatim>\<open>users_db.get\<close> returned \<^verbatim>\<open>None\<close>; the password is
  verified only when the user was found.\<close>

definition login ::
  "string \<Rightarrow> (string \<Rightarrow> string \<Rightarrow> bool) \<Rightarrow> UserLogin \<Rightarrow> datetime \<Rightarrow> state \<Rightarrow> http_error + Token" where
  "login SECRET_KEY verify_password user_credentials now s =
     (let incorrect = HTTPException HTTP_401_UNAUTHORIZED ''Incorrect username or password''
                        (Some [(''WWW-Authenticate'', ''Bearer'')])
      in case map_of (users_db s) (login_username user_credentials) of
           None \<Rightarrow> Inl incorrect
         | Some user \<Rightarrow>
             if \<not> verify_password (login_password user_credentials) (password user)
             then Inl incorrect
             else
               let access_token_expires = minutes ACCESS_TOKEN_EXPIRE_MINUTES;
                   tok = create_access_token SECRET_KEY
                           \<lparr>sub_claim = Some (username user), exp_claim = None\<rparr>
                           (Some access_token_expires) now
               in Inr \<lparr>access_token = tok, token_type = ''bearer''\<rparr>)"

text \<open>\<^verbatim>\<open>read_users_me\<close> (lines 181-184) returns the user that \<^verbatim>\<open>get_current_user\<close>
  found; \<^verbatim>\<open>get_users\<close> (lines 186-189) returns the stored users in insertion order.\<close>

definition read_users_me ::
  "string \<Rightarrow> token \<Rightarrow> datetime \<Rightarrow> state \<Rightarrow> http_error + user_data" where
  "read_users_me SECRET_KEY credentials now s = get_current_user SECRET_KEY credentials now s"

definition get_users :: "state \<Rightarrow> user_data list" where
  "get_users s = map snd (users_db s)"

text \<open>What the framework sends for \<^verbatim>\<open>response_model=User\<close>: the fields of the class
  \<^verbatim>\<open>User\<close> (lines 51-57, with those of \<^verbatim>\<open>UserBase\<close> first) read from the dictionary the
  handler returned. No user dictionary has a key \<^verbatim>\<open>is_active\<close>, so that field takes its
  default.\<close>

datatype json = JString string | JInt int | JBool bool | JNull | JDatetime datetime

definition User_model :: "user_data \<Rightarrow> (string \<times> json) list" where
  "User_model d =
     [(''username'', JString (username d)),
      (''email'', JString (email d)),
      (''full_name'', (case full_name d of None \<Rightarrow> JNull | Some n \<Rightarrow> JString n)),
      (''id'', JInt (u_id d)),
      (''is_active'', JBool True),
      (''created_at'', JDatetime (u_created_at d))]"

definition register_response ::
  "(string \<Rightarrow> string) \<Rightarrow> UserCreate \<Rightarrow> datetime \<Rightarrow> state \<Rightarrow> http_error + (string \<times> json) list" where
  "register_response get_password_hash user now s =
     map_sum (\<lambda>e. e) User_model (fst (register get_password_hash user now s))"

definition read_users_me_response ::
  "string \<Rightarrow> token \<Rightarrow> datetime \<Rightarrow> state \<Rightarrow> http_error + (string \<times> json) list" where
  "read_users_me_response SECRET_KEY credentials now s =
     map_sum (\<lambda>e. e) User_model (read_users_me SECRET_KEY credentials now s)"

definition get_users_response :: "state \<Rightarrow> (string \<times> json) list list" where
  "get_users_response s = map User_model (get_users s)"

section \<open>Items\<close>

text \<open>\<^verbatim>\<open>create_item\<close> (lines 191-200).\<close>

definition create_item ::
  "ItemCreate \<Rightarrow> user_data \<Rightarrow> datetime \<Rightarrow> state \<Rightarrow> item_data \<times> state" where
  "create_item item current_user now s =
     (let item_data = \<lparr>title = title item, description = description item, price = price item,
                         i_id = int (length (items_db s)) + 1,
                         owner_id = u_id current_user, i_created_at = now\<rparr>
      in (item_data, s\<lparr>items_db := AList.update (i_id item_data) item_data (items_db s)\<rparr>))"

text \<open>Python's \<^verbatim>\<open>xs[start:stop]\<close> on integers: a negative index counts from the end, and
  every index is clamped to the list; an empty range gives the empty list.\<close>

definition slice_index :: "int \<Rightarrow> nat \<Rightarrow> nat" where
  "slice_index i n =
     (if i < 0 then (if i + int n < 0 then 0 else nat (i + int n))
      else if int n < i then n else nat i)"

definition py_slice :: "'a list \<Rightarrow> int \<Rightarrow> int \<Rightarrow> 'a list" where
  "py_slice xs start stop =
     (let lo = slice_index start (length xs); hi = slice_index stop (length xs)
      in take (hi - lo) (drop lo xs))"

text \<open>\<^verbatim>\<open>get_items\<close> (lines 202-206) and \<^verbatim>\<open>get_item\<close> (lines 208-216).\<close>

definition get_items :: "int \<Rightarrow> int \<Rightarrow> state \<Rightarrow> item_data list" where
  "get_items skip limit s = (let items = map snd (items_db s) in py_slice items skip (skip + limit))"

definition item_not_found :: http_error where
  "item_not_found = HTTPException HTTP_404_NOT_FOUND ''Item not found'' None"

definition not_enough_permissions :: http_error where
  "not_enough_permissions = HTTPException HTTP_403_FORBIDDEN ''Not enough permissions'' None"

definition get_item :: "int \<Rightarrow> state \<Rightarrow> http_error + item_data" where
  "get_item item_id s =
     (case map_of (items_db s) item_id of
        None \<Rightarrow> Inl item_not_found
      | Some stored \<Rightarrow> Inr stored)"

text \<open>\<^verbatim>\<open>update_item\<close> (lines 218-243).\<close>

definition update_item ::
  "int \<Rightarrow> ItemCreate \<Rightarrow> user_data \<Rightarrow> state \<Rightarrow> (http_error + item_data) \<times> state" where
  "update_item item_id item current_user s =
     (case map_of (items_db s) item_id of
        None \<Rightarrow> (Inl item_not_found, s)
      | Some stored \<Rightarrow>
          if owner_id stored \<noteq> u_id current_user then (Inl not_enough_permissions, s)
          else
            let item_data = \<lparr>title = title item, description = description item,
                               price = price item, i_id = item_id,
                               owner_id = u_id current_user,
                               i_created_at = i_created_at stored\<rparr>
            in (Inr item_data, s\<lparr>items_db := AList.update item_id item_data (items_db s)\<rparr>))"

text \<open>\<^verbatim>\<open>delete_item\<close> (lines 245-261).\<close>

definition delete_item ::
  "int \<Rightarrow> user_data \<Rightarrow> state \<Rightarrow> (http_error + (string \<times> string) list) \<times> state" where
  "delete_item item_id current_user s =
     (case map_of (items_db s) item_id of
        None \<Rightarrow> (Inl item_not_found, s)
      | Some stored \<Rightarrow>
          if owner_id stored \<noteq> u_id current_user then (Inl not_enough_permissions, s)
          else (Inr [(''message'', ''Item deleted successfully'')],
                s\<lparr>items_db := AList.delete item_id (items_db s)\<rparr>))"

section \<open>Reachable states\<close>

text \<open>The states the service can be in: it starts with both dictionaries empty, and each
  request that writes runs one of the four handlers. The handlers of items run for the
  user \<^verbatim>\<open>get_current_user\<close> returned, which is a value of \<^verbatim>\<open>users_db\<close>. The hasher may
  differ from call to call (it salts).\<close>

inductive reachable :: "state \<Rightarrow> bool" where
  init: "reachable initial"
| register: "reachable s \<Longrightarrow> reachable (snd (register get_password_hash user now s))"
| create_item:
    "reachable s \<Longrightarrow> map_of (users_db s) name = Some current_user \<Longrightarrow>
     reachable (snd (create_item item current_user now s))"
| update_item:
    "reachable s \<Longrightarrow> map_of (users_db s) name = Some current_user \<Longrightarrow>
     reachable (snd (update_item item_id item current_user s))"
| delete_item:
    "reachable s \<Longrightarrow> map_of (users_db s) name = Some current_user \<Longrightarrow>
     reachable (snd (delete_item item_id current_user s))"

section \<open>What a token carries\<close>

text \<open>Modelled from the spec: the three causes for which section 4.2 of the specification
  lets the verification of a token fail, as predicates on the tokens above: the token has
  no token structure, its signature was made with another key, or the expiry it carries
  is not after the time of the check; and the subject the token carries, if any.\<close>

definition malformed :: "token \<Rightarrow> bool" where
  "malformed tok = (case tok of Malformed raw \<Rightarrow> True | Signed k p \<Rightarrow> False)"

definition signature_mismatch :: "string \<Rightarrow> token \<Rightarrow> bool" where
  "signature_mismatch key tok = (case tok of Malformed raw \<Rightarrow> False | Signed k p \<Rightarrow> k \<noteq> key)"

definition expired :: "token \<Rightarrow> datetime \<Rightarrow> bool" where
  "expired tok now =
     (case tok of
        Malformed raw \<Rightarrow> False
      | Signed k p \<Rightarrow> (case exp_claim p of None \<Rightarrow> False | Some e \<Rightarrow> e \<le> now))"

definition embedded_subject :: "token \<Rightarrow> string option" where
  "embedded_subject tok = (case tok of Malformed raw \<Rightarrow> None | Signed k p \<Rightarrow> sub_claim p)"

section \<open>Sample data\<close>

text \<open>Concrete requests, used where a theorem is applied to a concrete run. The hasher
  \<open>toy_hash\<close> stands for \<^verbatim>\<open>pwd_context.hash\<close> in those runs only.\<close>

definition alice :: UserCreate where
  "alice = \<lparr>username = ''alice'', email = ''a@example.com'', full_name = None,
             password = ''longenough1''\<rparr>"

definition bob :: UserCreate where
  "bob = \<lparr>username = ''bob'', email = ''b@example.com'', full_name = Some ''Bob'',
           password = ''longenough2''\<rparr>"

definition toy_hash :: "string \<Rightarrow> string" where
  "toy_hash p = ''$2b$'' @ rev p"

definition toy_verify :: "string \<Rightarrow> string \<Rightarrow> bool" where
  "toy_verify plain hashed = (hashed = toy_hash plain)"

definition widget :: ItemCreate where
  "widget = \<lparr>title = ''Widget'', description = None, price = 999 / 100\<rparr>"

definition gadget :: ItemCreate where
  "gadget = \<lparr>title = ''Gadget'', description = Some ''A gadget'', price = 5\<rparr>"

definition gizmo :: ItemCreate where
  "gizmo = \<lparr>title = ''Gizmo'', description = None, price = 1 / 2\<rparr>"

text \<open>The user dictionaries that registering \<open>alice\<close> first and \<open>bob\<close> second stores, the
  state after both, and what \<^verbatim>\<open>response_model=User\<close> sends for each.\<close>

definition alice_data :: user_data where
  "alice_data = \<lparr>username = ''alice'', email = ''a@example.com'', full_name = None,
                  password = toy_hash ''longenough1'', u_id = 1, u_created_at = 100\<rparr>"

definition bob_data :: user_data where
  "bob_data = \<lparr>username = ''bob'', email = ''b@example.com'', full_name = Some ''Bob'',
                password = toy_hash ''longenough2'', u_id = 2, u_created_at = 200\<rparr>"

definition two_users :: state where
  "two_users = snd (register toy_hash bob 200 (snd (register toy_hash alice 100 initial)))"

definition alice_view :: "(string \<times> json) list" where
  "alice_view = [(''username'', JString ''alice''), (''email'', JString ''a@example.com''),
      (''full_name'', JNull), (''id'', JInt 1), (''is_active'', JBool True),
      (''created_at'', JDatetime 100)]"

definition bob_view :: "(string \<times> json) list" where
  "bob_view = [(''username'', JString ''bob''), (''email'', JString ''b@example.com''),
      (''full_name'', JString ''Bob''), (''id'', JInt 2), (''is_active'', JBool True),
      (''created_at'', JDatetime 200)]"



definition alice_login :: UserLogin where
  "alice_login = \<lparr>login_username = ''alice'', login_password = ''longenough1''\<rparr>"

text \<open>The token \<^verbatim>\<open>login\<close> issues to \<open>alice\<close> at time 300 under the default secret, and a
  token signed with the same secret whose payload has an expiry and no subject.\<close>

definition alice_token :: token where
  "alice_token = Signed ''your-secret-key-here''
                   \<lparr>sub_claim = Some ''alice'', exp_claim = Some 2100\<rparr>"

definition token_without_subject :: token where
  "token_without_subject = Signed ''your-secret-key-here'' \<lparr>sub_claim = None, exp_claim = Some 2000\<rparr>"

text \<open>The item dictionaries of the sample runs: \<open>alice\<close> creates \<open>widget\<close> and then
  \<open>gadget\<close>, and deletes \<open>widget\<close>; \<open>gizmo_data\<close> is what \<open>bob\<close> creating \<open>gizmo\<close> at
  time 500 stores after that.\<close>

definition widget_data :: item_data where
  "widget_data = \<lparr>title = ''Widget'', description = None, price = 999 / 100,
                   i_id = 1, owner_id = 1, i_created_at = 300\<rparr>"

definition gadget_data :: item_data where
  "gadget_data = \<lparr>title = ''Gadget'', description = Some ''A gadget'', price = 5,
                   i_id = 2, owner_id = 1, i_created_at = 400\<rparr>"

definition gizmo_data :: item_data where
  "gizmo_data = \<lparr>title = ''Gizmo'', description = None, price = 1 / 2,
                  i_id = 2, owner_id = 2, i_created_at = 500\<rparr>"

definition with_widget :: state where
  "with_widget = snd (create_item widget alice_data 300 two_users)"

definition with_two_items :: state where
  "with_two_items = snd (create_item gadget alice_data 400 with_widget)"

definition after_delete :: state where
  "after_delete = snd (delete_item 1 alice_data with_two_items)"

section \<open>The dictionaries after each handler\<close>

text \<open>Storing under a key that is not there appends; this is how \<^verbatim>\<open>register\<close> writes,
  since it has just checked that the username is absent.\<close>

lemma update_fresh: "map_of al k = None \<Longrightarrow> AList.update k v al = al @ [(k, v)]"
  by (induction al) (auto split: if_splits)

lemma users_db_register:
  "users_db (snd (register h user now s)) =
     (if map_of (users_db s) (username user) \<noteq> None then users_db s
      else users_db s @ [(username user,
             \<lparr>username = username user, email = email user, full_name = full_name user,
              password = h (password user), u_id = int (length (users_db s)) + 1,
              u_created_at = now\<rparr>)])"
  by (simp add: register_def Let_def update_fresh)

lemma items_db_register [simp]: "items_db (snd (register h user now s)) = items_db s"
  by (simp add: register_def Let_def)

lemma users_db_create_item [simp]: "users_db (snd (create_item item cu now s)) = users_db s"
  by (simp add: create_item_def Let_def)

lemma users_db_update_item [simp]: "users_db (snd (update_item k item cu s)) = users_db s"
  by (simp add: update_item_def Let_def split: option.splits)

lemma users_db_delete_item [simp]: "users_db (snd (delete_item k cu s)) = users_db s"
  by (simp add: delete_item_def split: option.splits)

lemma items_db_create_item:
  "items_db (snd (create_item item cu now s)) =
     AList.update (int (length (items_db s)) + 1)
       \<lparr>title = title item, description = description item, price = price item,
        i_id = int (length (items_db s)) + 1, owner_id = u_id cu, i_created_at = now\<rparr>
       (items_db s)"
  by (simp add: create_item_def Let_def)

lemma create_item_stores:
  "owner_id (fst (create_item item cu now s)) = u_id cu
   \<and> map_of (items_db (snd (create_item item cu now s))) (i_id (fst (create_item item cu now s)))
       = Some (fst (create_item item cu now s))"
  by (simp add: create_item_def Let_def update_conv')

text \<open>The user \<^verbatim>\<open>get_current_user\<close> returns is a value of \<^verbatim>\<open>users_db\<close>.\<close>

lemma get_current_user_stored:
  "get_current_user SECRET_KEY credentials now s = Inr u \<Longrightarrow>
   \<exists>name. map_of (users_db s) name = Some u"
  by (auto simp: get_current_user_def split: sum.splits option.splits)

lemma register_stores:
  "map_of (users_db (snd (register h user now s))) (username user) \<noteq> None"
  by (simp add: register_def Let_def update_conv')

text \<open>After \<^verbatim>\<open>del items_db[k]\<close> the values are those whose key is not \<open>k\<close>, in the order
  they had; \<open>f\<close> reads the key back from a value.\<close>

lemma values_delete:
  "\<forall>kv \<in> set al. f (snd kv) = fst kv \<Longrightarrow>
   map snd (AList.delete k al) = filter (\<lambda>v. f v \<noteq> k) (map snd al)"
  by (induction al) auto

text \<open>A slice with a start and a length that are not negative is \<open>drop\<close> followed by
  \<open>take\<close>.\<close>

lemma py_slice_nonneg:
  assumes "0 \<le> start" and "0 \<le> len"
  shows "py_slice xs start (start + len) = take (nat len) (drop (nat start) xs)"
proof (cases "int (length xs) < start")
  case True
  then show ?thesis
    using assms by (simp add: py_slice_def slice_index_def Let_def)
next
  case False
  then have lo: "slice_index start (length xs) = nat start"
    using assms by (simp add: slice_index_def)
  show ?thesis
  proof (cases "int (length xs) < start + len")
    case True
    then have "slice_index (start + len) (length xs) = length xs"
      using assms by (simp add: slice_index_def)
    moreover have "length xs - nat start \<le> nat len"
      using True assms by linarith
    ultimately show ?thesis
      using lo by (simp add: py_slice_def Let_def)
  next
    case False
    then have "slice_index (start + len) (length xs) = nat (start + len)"
      using assms by (simp add: slice_index_def)
    moreover have "nat (start + len) - nat start = nat len"
      using assms by linarith
    ultimately show ?thesis
      using lo by (simp add: py_slice_def Let_def)
  qed
qed

section \<open>What holds in every reachable state\<close>

text \<open>Users are never removed, so the user stored at position \<open>n\<close> has the id \<open>n + 1\<close>,
  and two usernames never share an id.\<close>

lemma reachable_user_ids:
  "reachable s \<Longrightarrow> map (\<lambda>kv. u_id (snd kv)) (users_db s) = [1..int (length (users_db s))]"
proof (induction rule: reachable.induct)
  case init
  then show ?case by (simp add: initial_def)
next
  case (register s h user now)
  then show ?case by (simp add: users_db_register upto_rec2)
qed simp_all

lemma reachable_user_ids_differ:
  assumes "reachable s" "map_of (users_db s) a = Some ua" "map_of (users_db s) b = Some ub" "a \<noteq> b"
  shows "u_id ua \<noteq> u_id ub"
proof
  assume eq: "u_id ua = u_id ub"
  have d: "distinct (map (\<lambda>kv. u_id (snd kv)) (users_db s))"
    using reachable_user_ids [OF assms(1)] by simp
  have ina: "(a, ua) \<in> set (users_db s)" and inb: "(b, ub) \<in> set (users_db s)"
    using assms(2,3) by (auto dest: map_of_SomeD)
  have inj: "inj_on (\<lambda>kv. u_id (snd kv)) (set (users_db s))"
    using d by (simp add: distinct_map)
  have "(a, ua) = (b, ub)"
    by (rule inj_onD [OF inj _ ina inb]) (simp add: eq)
  with assms(4) show False by simp
qed

text \<open>Every stored item carries the key it is stored under as its \<^verbatim>\<open>id\<close>, and no key
  occurs twice.\<close>

lemma reachable_item_id:
  "reachable s \<Longrightarrow> map_of (items_db s) k = Some stored \<Longrightarrow> i_id stored = k"
proof (induction arbitrary: k stored rule: reachable.induct)
  case init
  then show ?case by (simp add: initial_def)
next
  case (register s h user now)
  then show ?case by simp
next
  case (create_item s name cu item now)
  then show ?case
    by (auto simp: items_db_create_item update_conv' split: if_splits)
next
  case (update_item s name cu item_id item)
  then show ?case
    by (auto simp: update_item_def Let_def update_conv' split: option.splits if_splits)
next
  case (delete_item s name cu item_id)
  then show ?case
    by (auto simp: delete_item_def delete_conv' split: option.splits if_splits)
qed

lemma reachable_distinct_items: "reachable s \<Longrightarrow> distinct (map fst (items_db s))"
proof (induction rule: reachable.induct)
  case init
  then show ?case by (simp add: initial_def)
next
  case (create_item s name cu item now)
  then show ?case by (simp add: items_db_create_item distinct_update)
next
  case (update_item s name cu item_id item)
  then show ?case
    by (auto simp: update_item_def Let_def distinct_update split: option.splits)
next
  case (delete_item s name cu item_id)
  then show ?case
    by (auto simp: delete_item_def distinct_delete split: option.splits)
qed simp

section \<open>The sample runs\<close>

lemma two_users_eq:
  "two_users = \<lparr>users_db = [(''alice'', alice_data), (''bob'', bob_data)], items_db = []\<rparr>"
  by (simp add: two_users_def register_def Let_def initial_def alice_def bob_def
      alice_data_def bob_data_def)

lemma with_widget_eq:
  "with_widget = \<lparr>users_db = [(''alice'', alice_data), (''bob'', bob_data)],
                   items_db = [(1, widget_data)]\<rparr>"
  by (simp add: with_widget_def two_users_eq create_item_def Let_def widget_def
      widget_data_def alice_data_def)

lemma with_two_items_eq:
  "with_two_items = \<lparr>users_db = [(''alice'', alice_data), (''bob'', bob_data)],
                      items_db = [(1, widget_data), (2, gadget_data)]\<rparr>"
  by (simp add: with_two_items_def with_widget_eq create_item_def Let_def gadget_def
      gadget_data_def alice_data_def)

lemma after_delete_eq:
  "after_delete = \<lparr>users_db = [(''alice'', alice_data), (''bob'', bob_data)],
                    items_db = [(2, gadget_data)]\<rparr>"
  by (simp add: after_delete_def with_two_items_eq delete_item_def widget_data_def alice_data_def)

lemma reachable_two_users: "reachable two_users"
  unfolding two_users_def by (intro reachable.register reachable.init)

lemma reachable_with_widget: "reachable with_widget"
  unfolding with_widget_def
  by (rule reachable.create_item [OF reachable_two_users, of "''alice''"])
     (simp add: two_users_eq)

lemma reachable_with_two_items: "reachable with_two_items"
  unfolding with_two_items_def
  by (rule reachable.create_item [OF reachable_with_widget, of "''alice''"])
     (simp add: with_widget_eq)

lemma reachable_after_delete: "reachable after_delete"
  unfolding after_delete_def
  by (rule reachable.delete_item [OF reachable_with_two_items, of "''alice''"])
     (simp add: with_two_items_eq)

section \<open>The response model and the expiry of issued tokens\<close>

lemma User_model_keys:
  "map fst (User_model d) =
     [''username'', ''email'', ''full_name'', ''id'', ''is_active'', ''created_at'']"
  by (simp add: User_model_def)

lemma User_model_no_password:
  "map_of (User_model d) ''password'' = None \<and> map_of (User_model d) ''passwordHash'' = None"
  by (simp add: User_model_def)

text \<open>\<^verbatim>\<open>create_access_token\<close> with a time to live that is not zero, and with none; and the
  token of a successful \<^verbatim>\<open>login\<close>, which expires 30 minutes (1800 seconds) after
  \<open>now\<close>.\<close>

lemma create_access_token_ttl:
  "ttl \<noteq> 0 \<Longrightarrow> create_access_token SECRET_KEY data (Some ttl) now =
     Signed SECRET_KEY (data\<lparr>exp_claim := Some (now + ttl)\<rparr>)"
  by (simp add: create_access_token_def jwt_encode_def)

lemma create_access_token_default:
  "create_access_token SECRET_KEY data None now =
     Signed SECRET_KEY (data\<lparr>exp_claim := Some (now + 900)\<rparr>)"
  by (simp add: create_access_token_def jwt_encode_def minutes_def)

lemma login_token_expiry:
  "login SECRET_KEY verify_password user_credentials now s = Inr t \<Longrightarrow>
   \<exists>name. access_token t =
     Signed SECRET_KEY \<lparr>sub_claim = Some name, exp_claim = Some (now + 1800)\<rparr>"
  by (auto simp: login_def Let_def create_access_token_def jwt_encode_def minutes_def
      ACCESS_TOKEN_EXPIRE_MINUTES_def split: option.splits if_splits)

section \<open>Item ids (C1)\<close>

text \<open>
  C1. Item ids are to be unique and stable; in particular creating an item after a
  deletion is never to assign an id that a stored item holds. \<^verbatim>\<open>create_item\<close> takes
  \<^verbatim>\<open>len(items_db) + 1\<close> as the new id, which is the id of a stored item as soon as an
  item with a smaller id has been deleted. In the run below \<open>alice\<close> has created
  \<open>widget\<close> (id 1) and \<open>gadget\<close> (id 2) and deleted \<open>widget\<close>; \<open>bob\<close> then creates
  \<open>gizmo\<close>. The new item gets the id 2 that \<open>gadget\<close> holds, and \<open>gadget\<close> is
  overwritten: the store holds \<open>gizmo\<close> alone.
\<close>

theorem create_item_after_delete_reuses_id:
  "reachable after_delete
   \<and> get_item 2 after_delete = Inr gadget_data
   \<and> fst (create_item gizmo bob_data 500 after_delete) = gizmo_data
   \<and> i_id gizmo_data = i_id gadget_data
   \<and> items_db (snd (create_item gizmo bob_data 500 after_delete)) = [(2, gizmo_data)]"
  using reachable_after_delete
  by (simp add: after_delete_eq get_item_def create_item_def Let_def gizmo_def gizmo_data_def
      gadget_data_def bob_data_def)

section \<open>Registering a username twice (C2)\<close>

text \<open>
  C2. Registering a username that is already registered fails with status 400
  (\<^verbatim>\<open>Username already registered\<close>) and leaves the user store as it was: the state
  returned is the state given, so the record stored under that username (id, email,
  full name, password hash, creation time) is the same before and after.
\<close>

theorem register_duplicate_username:
  assumes "map_of (users_db s) (username user) = Some u0"
  shows "register h user now s =
           (Inl (HTTPException 400 ''Username already registered'' None), s)
         \<and> map_of (users_db (snd (register h user now s))) (username user) = Some u0"
  using assms by (simp add: register_def HTTP_400_BAD_REQUEST_def)

theorem register_duplicate_username_witness:
  "map_of (users_db two_users) (username alice) = Some alice_data
   \<and> register toy_hash alice 300 two_users =
       (Inl (HTTPException 400 ''Username already registered'' None), two_users)
   \<and> map_of (users_db (snd (register toy_hash alice 300 two_users))) (username alice)
       = Some alice_data"
proof -
  have registered: "map_of (users_db two_users) (username alice) = Some alice_data"
    by (simp add: two_users_def register_def Let_def initial_def alice_def bob_def alice_data_def)
  show ?thesis
    using registered register_duplicate_username [OF registered, of toy_hash 300]
    by simp
qed

section \<open>Only the owner updates or deletes (C3)\<close>

text \<open>
  C3. In every reachable state, for a stored item created by user \<open>a\<close> (its
  \<^verbatim>\<open>owner_id\<close> is the id of \<open>a\<close>, which is what \<^verbatim>\<open>create_item\<close> stores for \<open>a\<close> and what
  \<^verbatim>\<open>update_item\<close> keeps) and an authenticated user \<open>b\<close> other than \<open>a\<close>, \<^verbatim>\<open>update_item\<close>
  and \<^verbatim>\<open>delete_item\<close> by \<open>b\<close> fail with status 403 (\<^verbatim>\<open>Not enough permissions\<close>), the
  state is unchanged, and reading the item afterwards returns it with every field as it
  was.
\<close>

theorem other_user_forbidden:
  assumes "reachable s"
    and "map_of (users_db s) a = Some user_a"
    and "map_of (users_db s) b = Some user_b"
    and "b \<noteq> a"
    and "map_of (items_db s) item_id = Some stored"
    and "owner_id stored = u_id user_a"
  shows "update_item item_id item user_b s =
           (Inl (HTTPException 403 ''Not enough permissions'' None), s)
         \<and> delete_item item_id user_b s =
           (Inl (HTTPException 403 ''Not enough permissions'' None), s)
         \<and> get_item item_id (snd (update_item item_id item user_b s)) = Inr stored
         \<and> get_item item_id (snd (delete_item item_id user_b s)) = Inr stored"
proof -
  have "u_id user_b \<noteq> u_id user_a"
    by (rule reachable_user_ids_differ [OF assms(1) assms(3) assms(2) assms(4)])
  with assms(6) have other: "owner_id stored \<noteq> u_id user_b"
    by simp
  have upd: "update_item item_id item user_b s =
               (Inl (HTTPException 403 ''Not enough permissions'' None), s)"
    using assms(5) other
    by (simp add: update_item_def not_enough_permissions_def HTTP_403_FORBIDDEN_def)
  have del: "delete_item item_id user_b s =
               (Inl (HTTPException 403 ''Not enough permissions'' None), s)"
    using assms(5) other
    by (simp add: delete_item_def not_enough_permissions_def HTTP_403_FORBIDDEN_def)
  show ?thesis
    using assms(5) by (simp add: upd del get_item_def)
qed

theorem other_user_forbidden_witness:
  "reachable with_widget
   \<and> map_of (users_db with_widget) ''alice'' = Some alice_data
   \<and> map_of (users_db with_widget) ''bob'' = Some bob_data
   \<and> ''bob'' \<noteq> ''alice''
   \<and> map_of (items_db with_widget) 1 = Some widget_data
   \<and> owner_id widget_data = u_id alice_data
   \<and> update_item 1 gadget bob_data with_widget =
       (Inl (HTTPException 403 ''Not enough permissions'' None), with_widget)
   \<and> delete_item 1 bob_data with_widget =
       (Inl (HTTPException 403 ''Not enough permissions'' None), with_widget)
   \<and> get_item 1 (snd (update_item 1 gadget bob_data with_widget)) = Inr widget_data
   \<and> get_item 1 (snd (delete_item 1 bob_data with_widget)) = Inr widget_data"
proof -
  have a: "map_of (users_db with_widget) ''alice'' = Some alice_data"
    and b: "map_of (users_db with_widget) ''bob'' = Some bob_data"
    and i: "map_of (items_db with_widget) 1 = Some widget_data"
    by (simp_all add: with_widget_eq)
  have n: "''bob'' \<noteq> ''alice''" by simp
  have own: "owner_id widget_data = u_id alice_data"
    by (simp add: widget_data_def alice_data_def)
  show ?thesis
    using other_user_forbidden [OF reachable_with_widget a b n i own, of gadget]
      reachable_with_widget a b n i own
    by blast
qed

section \<open>What an update changes (C4)\<close>

text \<open>
  C4. In every reachable state \<^verbatim>\<open>update_item\<close> fails with status 404 when the id is
  absent and with status 403 when the requester is not the stored owner, leaving the
  state unchanged; when the requester is the stored owner it returns and stores the
  stored item with title, description and price replaced by the new values and id, owner
  and creation time as they were. Every other key keeps its value, the order of the keys
  is unchanged, and so is the user store.
\<close>

theorem update_item_frame:
  assumes "reachable s"
  shows "(map_of (items_db s) item_id = None \<longrightarrow>
            update_item item_id item current_user s =
              (Inl (HTTPException 404 ''Item not found'' None), s))
       \<and> (\<forall>stored. map_of (items_db s) item_id = Some stored
                    \<and> owner_id stored \<noteq> u_id current_user \<longrightarrow>
            update_item item_id item current_user s =
              (Inl (HTTPException 403 ''Not enough permissions'' None), s))
       \<and> (\<forall>stored. map_of (items_db s) item_id = Some stored
                    \<and> owner_id stored = u_id current_user \<longrightarrow>
            (let updated = stored\<lparr>title := title item, description := description item,
                                   price := price item\<rparr>;
                 s' = snd (update_item item_id item current_user s)
             in fst (update_item item_id item current_user s) = Inr updated
                \<and> map_of (items_db s') = (map_of (items_db s))(item_id \<mapsto> updated)
                \<and> map fst (items_db s') = map fst (items_db s)
                \<and> users_db s' = users_db s))"
proof (intro conjI allI impI)
  assume "map_of (items_db s) item_id = None"
  then show "update_item item_id item current_user s =
               (Inl (HTTPException 404 ''Item not found'' None), s)"
    by (simp add: update_item_def item_not_found_def HTTP_404_NOT_FOUND_def)
next
  fix stored
  assume "map_of (items_db s) item_id = Some stored \<and> owner_id stored \<noteq> u_id current_user"
  then show "update_item item_id item current_user s =
               (Inl (HTTPException 403 ''Not enough permissions'' None), s)"
    by (simp add: update_item_def not_enough_permissions_def HTTP_403_FORBIDDEN_def)
next
  fix stored
  assume h: "map_of (items_db s) item_id = Some stored \<and> owner_id stored = u_id current_user"
  then have key: "i_id stored = item_id"
    using reachable_item_id [OF assms] by blast
  have present: "item_id \<in> fst ` set (items_db s)"
    using h by (metis domI dom_map_of_conv_image_fst)
  have same: "\<lparr>title = title item, description = description item, price = price item,
               i_id = item_id, owner_id = u_id current_user,
               i_created_at = i_created_at stored\<rparr>
              = stored\<lparr>title := title item, description := description item,
                         price := price item\<rparr>"
    using h key by simp
  show "let updated = stored\<lparr>title := title item, description := description item,
                              price := price item\<rparr>;
            s' = snd (update_item item_id item current_user s)
        in fst (update_item item_id item current_user s) = Inr updated
           \<and> map_of (items_db s') = (map_of (items_db s))(item_id \<mapsto> updated)
           \<and> map fst (items_db s') = map fst (items_db s)
           \<and> users_db s' = users_db s"
    using h present
    by (simp add: update_item_def Let_def same update_conv' update_keys)
qed

theorem update_item_frame_witness:
  "reachable with_widget
   \<and> map_of (items_db with_widget) 7 = None
   \<and> update_item 7 gadget alice_data with_widget =
       (Inl (HTTPException 404 ''Item not found'' None), with_widget)
   \<and> map_of (items_db with_widget) 1 = Some widget_data
   \<and> owner_id widget_data \<noteq> u_id bob_data
   \<and> update_item 1 gadget bob_data with_widget =
       (Inl (HTTPException 403 ''Not enough permissions'' None), with_widget)
   \<and> owner_id widget_data = u_id alice_data
   \<and> fst (update_item 1 gadget alice_data with_widget) =
       Inr \<lparr>title = ''Gadget'', description = Some ''A gadget'', price = 5,
            i_id = 1, owner_id = 1, i_created_at = 300\<rparr>
   \<and> map_of (items_db (snd (update_item 1 gadget alice_data with_widget))) 1 =
       Some \<lparr>title = ''Gadget'', description = Some ''A gadget'', price = 5,
             i_id = 1, owner_id = 1, i_created_at = 300\<rparr>"
proof -
  have absent: "map_of (items_db with_widget) 7 = None"
    and i: "map_of (items_db with_widget) 1 = Some widget_data"
    by (simp_all add: with_widget_eq)
  have other: "owner_id widget_data \<noteq> u_id bob_data"
    and own: "owner_id widget_data = u_id alice_data"
    by (simp_all add: widget_data_def alice_data_def bob_data_def)
  have upd: "widget_data\<lparr>title := title gadget, description := description gadget,
                          price := price gadget\<rparr>
             = \<lparr>title = ''Gadget'', description = Some ''A gadget'', price = 5,
                i_id = 1, owner_id = 1, i_created_at = 300\<rparr>"
    by (simp add: widget_data_def gadget_def)
  show ?thesis
    using update_item_frame [OF reachable_with_widget, of 7 gadget alice_data]
      update_item_frame [OF reachable_with_widget, of 1 gadget bob_data]
      update_item_frame [OF reachable_with_widget, of 1 gadget alice_data]
      reachable_with_widget absent i other own
    by (simp add: Let_def upd)
qed

section \<open>User views carry no password (C5)\<close>

text \<open>
  C5. The dictionary \<^verbatim>\<open>register\<close> returns has the key \<^verbatim>\<open>password\<close> (it is the stored
  dictionary, with the hash); the response is that dictionary read through the response
  model \<^verbatim>\<open>User\<close>. Whenever registration succeeds, and it does for every username that
  is not registered yet, the view sent has no field \<^verbatim>\<open>password\<close> and no field
  \<^verbatim>\<open>passwordHash\<close>; the same holds for the view \<^verbatim>\<open>read_users_me\<close> sends and for every
  view in the list \<^verbatim>\<open>get_users\<close> sends.
\<close>

theorem user_views_omit_password:
  "(\<forall>view. register_response get_password_hash user now s = Inr view \<longrightarrow>
       map_of view ''password'' = None \<and> map_of view ''passwordHash'' = None)
   \<and> (map_of (users_db s) (username user) = None \<longrightarrow>
        (\<exists>view. register_response get_password_hash user now s = Inr view))
   \<and> (\<forall>view. read_users_me_response SECRET_KEY credentials now s = Inr view \<longrightarrow>
       map_of view ''password'' = None \<and> map_of view ''passwordHash'' = None)
   \<and> (\<forall>view \<in> set (get_users_response s).
       map_of view ''password'' = None \<and> map_of view ''passwordHash'' = None)"
proof (intro conjI allI impI ballI)
  fix view
  assume "register_response get_password_hash user now s = Inr view"
  then obtain d where "view = User_model d"
    by (cases "fst (register get_password_hash user now s)") (auto simp: register_response_def)
  then show "map_of view ''password'' = None" "map_of view ''passwordHash'' = None"
    by (simp_all add: User_model_no_password)
next
  assume "map_of (users_db s) (username user) = None"
  then show "\<exists>view. register_response get_password_hash user now s = Inr view"
    by (simp add: register_response_def register_def Let_def)
next
  fix view
  assume "read_users_me_response SECRET_KEY credentials now s = Inr view"
  then obtain d where "view = User_model d"
    by (cases "read_users_me SECRET_KEY credentials now s")
       (auto simp: read_users_me_response_def)
  then show "map_of view ''password'' = None" "map_of view ''passwordHash'' = None"
    by (simp_all add: User_model_no_password)
next
  fix view
  assume "view \<in> set (get_users_response s)"
  then obtain d where "view = User_model d"
    by (auto simp: get_users_response_def)
  then show "map_of view ''password'' = None" "map_of view ''passwordHash'' = None"
    by (simp_all add: User_model_no_password)
qed

theorem user_views_omit_password_witness:
  "register_response toy_hash alice 100 initial = Inr alice_view
   \<and> map_of (users_db initial) (username alice) = None
   \<and> map_of alice_view ''password'' = None \<and> map_of alice_view ''passwordHash'' = None
   \<and> read_users_me_response ''your-secret-key-here'' alice_token 300 two_users = Inr alice_view
   \<and> get_users_response two_users = [alice_view, bob_view]
   \<and> map_of bob_view ''password'' = None \<and> map_of bob_view ''passwordHash'' = None"
proof -
  have r: "register_response toy_hash alice 100 initial = Inr alice_view"
    by (simp add: register_response_def register_def Let_def initial_def alice_def
        User_model_def alice_view_def)
  have f: "map_of (users_db initial) (username alice) = None"
    by (simp add: initial_def)
  have m: "read_users_me_response ''your-secret-key-here'' alice_token 300 two_users
             = Inr alice_view"
    by (simp add: read_users_me_response_def read_users_me_def get_current_user_def
        token_subject_def alice_token_def two_users_eq alice_data_def User_model_def
        alice_view_def)
  have l: "get_users_response two_users = [alice_view, bob_view]"
    by (simp add: get_users_response_def get_users_def two_users_eq alice_data_def
        bob_data_def User_model_def alice_view_def bob_view_def)
  show ?thesis
    using user_views_omit_password [of toy_hash alice 100 initial]
      user_views_omit_password [of toy_hash alice 300 two_users
        "''your-secret-key-here''" alice_token] r f m l
    by simp
qed

section \<open>Login failures look the same (C6)\<close>



section \<open>Pages of items (C7)\<close>

text \<open>
  C7. For \<open>skip\<close> and \<open>limit\<close> that are not negative, \<^verbatim>\<open>get_items\<close> returns the items at
  the positions \<open>skip\<close> up to, and not including, \<open>skip + limit\<close> of the stored items in
  insertion order: the first \<open>limit\<close> of what is left after dropping \<open>skip\<close>. The
  function returns a list for every input, which is empty or shorter when the range
  leaves the store; there is no error it could raise. Starting from an empty item store,
  after three calls of \<^verbatim>\<open>create_item\<close> the call with the defaults \<open>skip = 0\<close>,
  \<open>limit = 10\<close> returns the three items created, in the order of creation.
\<close>

theorem get_items_page:
  "(0 \<le> skip \<and> 0 \<le> limit \<longrightarrow>
      get_items skip limit s = take (nat limit) (drop (nat skip) (map snd (items_db s))))
   \<and> (items_db s = [] \<longrightarrow>
        (let (first, s1) = create_item item1 user1 now1 s;
             (second, s2) = create_item item2 user2 now2 s1;
             (third, s3) = create_item item3 user3 now3 s2
         in get_items 0 10 s3 = [first, second, third]))"
proof (intro conjI impI)
  assume "0 \<le> skip \<and> 0 \<le> limit"
  then show "get_items skip limit s = take (nat limit) (drop (nat skip) (map snd (items_db s)))"
    by (simp add: get_items_def Let_def py_slice_nonneg)
next
  assume "items_db s = []"
  then show "let (first, s1) = create_item item1 user1 now1 s;
                 (second, s2) = create_item item2 user2 now2 s1;
                 (third, s3) = create_item item3 user3 now3 s2
             in get_items 0 10 s3 = [first, second, third]"
    by (simp add: create_item_def Let_def get_items_def py_slice_def slice_index_def)
qed

theorem get_items_page_witness:
  "(0::int) \<le> 1 \<and> (0::int) \<le> 5
   \<and> get_items 1 5 with_two_items = [gadget_data]
   \<and> get_items 5 2 with_two_items = []
   \<and> items_db two_users = []
   \<and> get_items 0 10 (snd (create_item gizmo bob_data 500 with_two_items))
       = [widget_data, gadget_data,
          \<lparr>title = ''Gizmo'', description = None, price = 1 / 2, i_id = 3, owner_id = 2,
           i_created_at = 500\<rparr>]"
proof -
  have e: "items_db two_users = []"
    by (simp add: two_users_eq)
  have run: "snd (create_item gizmo bob_data 500 with_two_items) =
      snd (create_item gizmo bob_data 500
        (snd (create_item gadget alice_data 400
          (snd (create_item widget alice_data 300 two_users)))))"
    by (simp add: with_two_items_def with_widget_def)
  have vals: "fst (create_item widget alice_data 300 two_users) = widget_data"
    "fst (create_item gadget alice_data 400 with_widget) = gadget_data"
    "fst (create_item gizmo bob_data 500 with_two_items) =
       \<lparr>title = ''Gizmo'', description = None, price = 1 / 2, i_id = 3, owner_id = 2,
        i_created_at = 500\<rparr>"
    by (simp_all add: create_item_def Let_def two_users_eq with_widget_eq with_two_items_eq
        widget_def gadget_def gizmo_def widget_data_def gadget_data_def alice_data_def bob_data_def)
  have d: "take (nat 5) (drop (nat 1) (map snd (items_db with_two_items))) = [gadget_data]"
    "take (nat 2) (drop (nat 5) (map snd (items_db with_two_items))) = []"
    by (simp_all add: with_two_items_eq)
  show ?thesis
    using get_items_page [of 1 5 with_two_items]
      get_items_page [of 5 2 with_two_items]
      get_items_page [of _ _ two_users widget alice_data 300 gadget alice_data 400 gizmo bob_data 500]
      e run vals d
    by (simp add: split_beta Let_def with_two_items_def with_widget_def)
qed

section \<open>Verifying a token (C8)\<close>

text \<open>
  C8, as amended. Verification of a token fails exactly when its signature does not match
  the secret, it is malformed, the expiry it carries is not after the time of the check,
  or it carries no subject; when none of these holds it returns the subject the token
  carries. A token issued for a subject with a time to live of 30 minutes verifies at
  every time before its expiry, the time of issuance among them, and fails at every time
  from its expiry on.
\<close>

theorem token_verification:
  "(token_subject SECRET_KEY tok now = Inl credentials_exception \<longleftrightarrow>
      signature_mismatch SECRET_KEY tok \<or> malformed tok \<or> expired tok now
      \<or> embedded_subject tok = None)
   \<and> (\<forall>name. \<not> signature_mismatch SECRET_KEY tok \<and> \<not> malformed tok \<and> \<not> expired tok now
              \<and> embedded_subject tok = Some name \<longrightarrow>
         token_subject SECRET_KEY tok now = Inr name)
   \<and> (\<forall>t. t < issued + minutes 30 \<longrightarrow>
         token_subject SECRET_KEY
           (create_access_token SECRET_KEY \<lparr>sub_claim = Some subject, exp_claim = None\<rparr>
              (Some (minutes 30)) issued) t = Inr subject)
   \<and> (\<forall>t. issued + minutes 30 \<le> t \<longrightarrow>
         token_subject SECRET_KEY
           (create_access_token SECRET_KEY \<lparr>sub_claim = Some subject, exp_claim = None\<rparr>
              (Some (minutes 30)) issued) t = Inl credentials_exception)"
proof (intro conjI allI impI)
  show "token_subject SECRET_KEY tok now = Inl credentials_exception \<longleftrightarrow>
      signature_mismatch SECRET_KEY tok \<or> malformed tok \<or> expired tok now
      \<or> embedded_subject tok = None"
    by (cases tok)
       (auto simp: token_subject_def signature_mismatch_def malformed_def expired_def
          embedded_subject_def split: option.splits)
next
  fix name
  assume "\<not> signature_mismatch SECRET_KEY tok \<and> \<not> malformed tok \<and> \<not> expired tok now
          \<and> embedded_subject tok = Some name"
  then show "token_subject SECRET_KEY tok now = Inr name"
    by (cases tok)
       (auto simp: token_subject_def signature_mismatch_def malformed_def expired_def
          embedded_subject_def split: option.splits)
next
  fix t
  assume "t < issued + minutes 30"
  then show "token_subject SECRET_KEY
           (create_access_token SECRET_KEY \<lparr>sub_claim = Some subject, exp_claim = None\<rparr>
              (Some (minutes 30)) issued) t = Inr subject"
    by (simp add: token_subject_def create_access_token_def jwt_encode_def minutes_def)
next
  fix t
  assume "issued + minutes 30 \<le> t"
  then show "token_subject SECRET_KEY
           (create_access_token SECRET_KEY \<lparr>sub_claim = Some subject, exp_claim = None\<rparr>
              (Some (minutes 30)) issued) t = Inl credentials_exception"
    by (simp add: token_subject_def create_access_token_def jwt_encode_def minutes_def)
qed

theorem token_verification_witness:
  "\<not> signature_mismatch ''your-secret-key-here'' alice_token \<and> \<not> malformed alice_token
   \<and> \<not> expired alice_token 300 \<and> embedded_subject alice_token = Some ''alice''
   \<and> create_access_token ''your-secret-key-here''
        \<lparr>sub_claim = Some ''alice'', exp_claim = None\<rparr> (Some (minutes 30)) 300 = alice_token
   \<and> (300::int) < 300 + minutes 30
   \<and> token_subject ''your-secret-key-here'' alice_token 300 = Inr ''alice''
   \<and> (300::int) + minutes 30 \<le> 2100
   \<and> token_subject ''your-secret-key-here'' alice_token 2100 = Inl credentials_exception"
proof -
  have pre: "\<not> signature_mismatch ''your-secret-key-here'' alice_token \<and> \<not> malformed alice_token
      \<and> \<not> expired alice_token 300 \<and> embedded_subject alice_token = Some ''alice''"
    by (simp add: alice_token_def signature_mismatch_def malformed_def expired_def
        embedded_subject_def)
  have iss: "create_access_token ''your-secret-key-here''
        \<lparr>sub_claim = Some ''alice'', exp_claim = None\<rparr> (Some (minutes 30)) 300 = alice_token"
    by (simp add: create_access_token_def jwt_encode_def minutes_def alice_token_def)
  have early: "(300::int) < 300 + minutes 30" and late: "(300::int) + minutes 30 \<le> 2100"
    by (simp_all add: minutes_def)
  show ?thesis
    using token_verification [of "''your-secret-key-here''" alice_token 300 300 "''alice''"]
      pre iss early late
    by simp
qed

text \<open>The statement without the fourth cause fails: the token below is signed with the
  secret, has the structure of a token and an expiry (2000) after the time of the check
  (1000), and carries no subject. \<^verbatim>\<open>get_current_user\<close> tests for that
  (\<^verbatim>\<open>if username is None\<close>) and raises.\<close>

theorem token_verification_counterexample:
  "token_subject ''your-secret-key-here'' token_without_subject 1000 = Inl credentials_exception
   \<and> \<not> signature_mismatch ''your-secret-key-here'' token_without_subject
   \<and> \<not> malformed token_without_subject
   \<and> \<not> expired token_without_subject 1000"
  by (simp add: token_subject_def token_without_subject_def signature_mismatch_def
      malformed_def expired_def)

section \<open>The expiry of an issued token (C9)\<close>

text \<open>
  C9, as amended. \<^verbatim>\<open>create_access_token\<close> sets the expiry of the token to \<open>now + ttl\<close>
  when a time to live other than zero is supplied, and to 15 minutes after \<open>now\<close> when
  none is supplied or the one supplied is zero (the test \<^verbatim>\<open>if expires_delta:\<close> takes
  \<^verbatim>\<open>timedelta(0)\<close> for false). \<^verbatim>\<open>login\<close> always supplies 30 minutes: a login with a
  stored username and a password that verifies succeeds, and the token of every
  successful login expires 30 minutes after \<open>now\<close>.
\<close>

theorem token_expiry:
  "(\<forall>ttl. ttl \<noteq> 0 \<longrightarrow>
       create_access_token SECRET_KEY data (Some ttl) now =
         Signed SECRET_KEY (data\<lparr>exp_claim := Some (now + ttl)\<rparr>))
   \<and> create_access_token SECRET_KEY data None now =
         Signed SECRET_KEY (data\<lparr>exp_claim := Some (now + minutes 15)\<rparr>)
   \<and> create_access_token SECRET_KEY data (Some 0) now =
         Signed SECRET_KEY (data\<lparr>exp_claim := Some (now + minutes 15)\<rparr>)
   \<and> (\<forall>user. map_of (users_db s) (login_username user_credentials) = Some user
               \<and> verify_password (login_password user_credentials) (password user) \<longrightarrow>
         login SECRET_KEY verify_password user_credentials now s =
           Inr \<lparr>access_token =
                  Signed SECRET_KEY
                    \<lparr>sub_claim = Some (username user), exp_claim = Some (now + minutes 30)\<rparr>,
                token_type = ''bearer''\<rparr>)
   \<and> (\<forall>t. login SECRET_KEY verify_password user_credentials now s = Inr t \<longrightarrow>
         (\<exists>name. access_token t =
            Signed SECRET_KEY \<lparr>sub_claim = Some name, exp_claim = Some (now + minutes 30)\<rparr>))"
proof (intro conjI allI impI)
  fix ttl :: timedelta
  assume "ttl \<noteq> 0"
  then show "create_access_token SECRET_KEY data (Some ttl) now =
               Signed SECRET_KEY (data\<lparr>exp_claim := Some (now + ttl)\<rparr>)"
    by (rule create_access_token_ttl)
next
  show "create_access_token SECRET_KEY data None now =
          Signed SECRET_KEY (data\<lparr>exp_claim := Some (now + minutes 15)\<rparr>)"
    by (simp add: create_access_token_default minutes_def)
next
  show "create_access_token SECRET_KEY data (Some 0) now =
          Signed SECRET_KEY (data\<lparr>exp_claim := Some (now + minutes 15)\<rparr>)"
    by (simp add: create_access_token_def jwt_encode_def)
next
  fix user
  assume "map_of (users_db s) (login_username user_credentials) = Some user
          \<and> verify_password (login_password user_credentials) (password user)"
  then show "login SECRET_KEY verify_password user_credentials now s =
           Inr \<lparr>access_token =
                  Signed SECRET_KEY
                    \<lparr>sub_claim = Some (username user), exp_claim = Some (now + minutes 30)\<rparr>,
                token_type = ''bearer''\<rparr>"
    by (simp add: login_def Let_def create_access_token_def jwt_encode_def minutes_def
        ACCESS_TOKEN_EXPIRE_MINUTES_def)
next
  fix t
  assume "login SECRET_KEY verify_password user_credentials now s = Inr t"
  then show "\<exists>name. access_token t =
            Signed SECRET_KEY \<lparr>sub_claim = Some name, exp_claim = Some (now + minutes 30)\<rparr>"
    using login_token_expiry [of SECRET_KEY verify_password user_credentials now s t]
    by (simp add: minutes_def)
qed

theorem token_expiry_witness:
  "(60::int) \<noteq> 0
   \<and> create_access_token ''your-secret-key-here''
        \<lparr>sub_claim = Some ''alice'', exp_claim = None\<rparr> (Some 60) 300 =
       Signed ''your-secret-key-here'' \<lparr>sub_claim = Some ''alice'', exp_claim = Some 360\<rparr>
   \<and> create_access_token ''your-secret-key-here''
        \<lparr>sub_claim = Some ''alice'', exp_claim = None\<rparr> None 300 =
       Signed ''your-secret-key-here'' \<lparr>sub_claim = Some ''alice'', exp_claim = Some 1200\<rparr>
   \<and> map_of (users_db two_users) (login_username alice_login) = Some alice_data
   \<and> toy_verify (login_password alice_login) (password alice_data)
   \<and> login ''your-secret-key-here'' toy_verify alice_login 300 two_users =
       Inr \<lparr>access_token = alice_token, token_type = ''bearer''\<rparr>
   \<and> alice_token =
       Signed ''your-secret-key-here'' \<lparr>sub_claim = Some ''alice'', exp_claim = Some (300 + 1800)\<rparr>"
proof -
  have u: "map_of (users_db two_users) (login_username alice_login) = Some alice_data"
    by (simp add: two_users_eq alice_login_def)
  have v: "toy_verify (login_password alice_login) (password alice_data)"
    by (simp add: toy_verify_def alice_login_def alice_data_def)
  have n: "username alice_data = ''alice''"
    by (simp add: alice_data_def)
  have m: "minutes 15 = 900" "minutes 30 = 1800"
    by (simp_all add: minutes_def)
  show ?thesis
    using token_expiry [where SECRET_KEY = "''your-secret-key-here''"
        and data = "\<lparr>sub_claim = Some ''alice'', exp_claim = None\<rparr>" and now = 300
        and s = two_users and user_credentials = alice_login and verify_password = toy_verify]
      u v
    by (simp add: n m alice_token_def)
qed

text \<open>With a time to live of zero supplied, the expiry is not \<open>now + ttl\<close>: issued at
  time 300, the token expires at 1200 and not at 300.\<close>

theorem token_expiry_counterexample:
  "create_access_token ''your-secret-key-here''
      \<lparr>sub_claim = Some ''alice'', exp_claim = None\<rparr> (Some 0) 300 =
     Signed ''your-secret-key-here'' \<lparr>sub_claim = Some ''alice'', exp_claim = Some 1200\<rparr>
   \<and> create_access_token ''your-secret-key-here''
      \<lparr>sub_claim = Some ''alice'', exp_claim = None\<rparr> (Some 0) 300 \<noteq>
     Signed ''your-secret-key-here'' \<lparr>sub_claim = Some ''alice'', exp_claim = Some (300 + 0)\<rparr>"
  by (simp add: create_access_token_def jwt_encode_def minutes_def)

section \<open>What a deletion removes (C10)\<close>

text \<open>
  C10. In every reachable state, for a stored item and a requester who is its owner,
  \<^verbatim>\<open>delete_item\<close> succeeds; afterwards \<^verbatim>\<open>get_item\<close> on that id fails with status 404,
  \<^verbatim>\<open>get_item\<close> on every other id returns what it returned before, the stored items are
  those of before without the one with that id, in the same order, and the user store is
  unchanged.
\<close>

theorem delete_item_frame:
  assumes "reachable s"
    and "map_of (items_db s) item_id = Some stored"
    and "owner_id stored = u_id current_user"
  shows "(let s' = snd (delete_item item_id current_user s)
          in fst (delete_item item_id current_user s) =
               Inr [(''message'', ''Item deleted successfully'')]
             \<and> get_item item_id s' = Inl (HTTPException 404 ''Item not found'' None)
             \<and> (\<forall>k. k \<noteq> item_id \<longrightarrow> get_item k s' = get_item k s)
             \<and> map snd (items_db s') =
                 filter (\<lambda>it. i_id it \<noteq> item_id) (map snd (items_db s))
             \<and> users_db s' = users_db s)"
proof -
  have ids: "\<forall>kv \<in> set (items_db s). i_id (snd kv) = fst kv"
  proof
    fix kv
    assume "kv \<in> set (items_db s)"
    then have "map_of (items_db s) (fst kv) = Some (snd kv)"
      using reachable_distinct_items [OF assms(1)] by simp
    then show "i_id (snd kv) = fst kv"
      by (rule reachable_item_id [OF assms(1)])
  qed
  have listing: "map snd (AList.delete item_id (items_db s)) =
                 filter (\<lambda>it. i_id it \<noteq> item_id) (map snd (items_db s))"
    by (rule values_delete [OF ids])
  show ?thesis
    using assms(2,3)
    by (simp add: delete_item_def Let_def get_item_def delete_conv' listing
        item_not_found_def HTTP_404_NOT_FOUND_def)
qed


theorem delete_item_frame_witness:
  "reachable with_two_items
   \<and> map_of (items_db with_two_items) 1 = Some widget_data
   \<and> owner_id widget_data = u_id alice_data
   \<and> fst (delete_item 1 alice_data with_two_items) =
       Inr [(''message'', ''Item deleted successfully'')]
   \<and> get_item 1 (snd (delete_item 1 alice_data with_two_items)) =
       Inl (HTTPException 404 ''Item not found'' None)
   \<and> get_item 2 (snd (delete_item 1 alice_data with_two_items)) = Inr gadget_data
   \<and> map snd (items_db (snd (delete_item 1 alice_data with_two_items))) = [gadget_data]"
proof -
  have i: "map_of (items_db with_two_items) 1 = Some widget_data"
    by (simp add: with_two_items_eq)
  have own: "owner_id widget_data = u_id alice_data"
    by (simp add: widget_data_def alice_data_def)
  have g: "get_item 2 with_two_items = Inr gadget_data"
    by (simp add: get_item_def with_two_items_eq)
  have l: "filter (\<lambda>it. i_id it \<noteq> 1) (map snd (items_db with_two_items)) = [gadget_data]"
    by (simp add: with_two_items_eq widget_data_def gadget_data_def)
  show ?thesis
    using delete_item_frame [OF reachable_with_two_items i own]
      reachable_with_two_items i own g l
    by (simp add: Let_def)
qed

end
